theory Spec2Isabelle
  imports Main
begin

section \<open>The Sphinx configuration file \<^verbatim>\<open>docs/conf.py\<close>\<close>

text \<open>
  \<^verbatim>\<open>docs/conf.py\<close> is a straight-line Python module: thirteen assignments of
  constants, two imports and one call, \<^verbatim>\<open>sys.path.insert(0, os.path.abspath('../cpp/src'))\<close>.
  The documentation builder executes it once and reads the resulting module namespace.
  The model below is that execution: an interpreter state, one state transformer for each
  kind of statement the file contains, and the file itself as their composition in source
  order.
\<close>

subsection \<open>Values and interpreter state\<close>

text \<open>
  The Python values the file builds: \<^verbatim>\<open>str\<close> constants, lists of them, one
  \<^verbatim>\<open>dict\<close> with a \<^verbatim>\<open>str\<close> key (an association list, in the order of the
  literal), and the module objects that the two \<^verbatim>\<open>import\<close> statements bind.
\<close>

datatype pyval =
    Str string
  | PyList "pyval list"
  | PyDict "(string \<times> pyval) list"
  | Module string

text \<open>
  What a statement of the file does is recorded as an event, in execution order. The
  log is not a Python object; it is there so that properties of the form
  ``assigned exactly once'' or ``performs exactly one insertion'' can be stated.
\<close>

datatype event =
    Assigned string pyval
  | Imported string
  | PathInserted int string

text \<open>
  The state the file reads or writes:
  \<^item> \<open>cwd\<close>: the working directory of the process, which \<^verbatim>\<open>os.path.abspath\<close> reads;
  \<^item> \<open>sys_path\<close>: the list \<^verbatim>\<open>sys.path\<close>;
  \<^item> \<open>sys_modules\<close>: the names of the modules already initialised
    (the keys of \<^verbatim>\<open>sys.modules\<close>, in the order of the dictionary);
  \<^item> \<open>module_imports\<close>: for a module name, the modules that initialising it imports
    in turn, directly or through them, in the order in which their initialisation
    completes; a fact of the installed Python library, which no statement changes;
  \<^item> \<open>globals\<close>: the namespace the file is executed in;
  \<^item> \<open>trace\<close>: the event log.
\<close>

record interp =
  cwd :: string
  sys_path :: "string list"
  sys_modules :: "string list"
  module_imports :: "string \<Rightarrow> string list"
  globals :: "string \<rightharpoonup> pyval"
  trace :: "event list"

subsection \<open>The statements\<close>

text \<open>\<^verbatim>\<open>name = value\<close> at module level: binds the name in the namespace.\<close>

definition assign :: "string \<Rightarrow> pyval \<Rightarrow> interp \<Rightarrow> interp" where
  "assign name v s =
     s\<lparr>globals := (globals s)(name \<mapsto> v), trace := trace s @ [Assigned name v]\<rparr>"

text \<open>
  \<^verbatim>\<open>import m\<close>: a module that is already initialised is taken from
  \<^verbatim>\<open>sys.modules\<close>, which stays as it is. Otherwise the module is initialised: every
  module that its initialisation imports and that is not yet in \<^verbatim>\<open>sys.modules\<close> is
  registered there, and so is the module itself, last. Either way the name is bound to
  the module object.
\<close>

definition register :: "string \<Rightarrow> string list \<Rightarrow> string list" where
  "register m ms = (if m \<in> set ms then ms else ms @ [m])"

definition load_module :: "string \<Rightarrow> string list \<Rightarrow> string list \<Rightarrow> string list" where
  "load_module m imps ms = (if m \<in> set ms then ms else fold register (imps @ [m]) ms)"

definition import_module :: "string \<Rightarrow> interp \<Rightarrow> interp" where
  "import_module m s =
     s\<lparr>sys_modules := load_module m (module_imports s m) (sys_modules s),
       globals := (globals s)(m \<mapsto> Module m),
       trace := trace s @ [Imported m]\<rparr>"

text \<open>
  \<^verbatim>\<open>list.insert(i, x)\<close>: a negative index counts from the end, and an index out of
  range is clamped to the nearest end; the method never raises on a list.
\<close>

definition list_insert :: "int \<Rightarrow> 'a \<Rightarrow> 'a list \<Rightarrow> 'a list" where
  "list_insert i x xs =
     (let n = int (length xs);
          j = (if i < 0 then (if i + n < 0 then 0 else i + n)
               else if n < i then n else i)
      in take (nat j) xs @ x # drop (nat j) xs)"

text \<open>\<^verbatim>\<open>sys.path.insert(i, p)\<close>.\<close>

definition sys_path_insert :: "int \<Rightarrow> string \<Rightarrow> interp \<Rightarrow> interp" where
  "sys_path_insert i p s =
     s\<lparr>sys_path := list_insert i p (sys_path s), trace := trace s @ [PathInserted i p]\<rparr>"

subsection \<open>The configuration file\<close>

text \<open>
  \<^verbatim>\<open>os.path.abspath\<close> belongs to the Python standard library, not to the repository,
  and differs between platforms. It is a parameter of the model: \<open>abspath d p\<close> is the
  result of \<^verbatim>\<open>os.path.abspath(p)\<close> in a process whose working directory is \<open>d\<close>.
  On a \<^verbatim>\<open>str\<close> argument the call fails only when the working directory has been
  removed under the process; the model is of a process whose working directory exists,
  so \<open>abspath\<close> is a function. The names \<^verbatim>\<open>os\<close> and \<^verbatim>\<open>sys\<close> that the call looks up
  are bound by the two statements just before it, and \<^verbatim>\<open>sys.path\<close> is a list, so no
  statement of the file raises. The statements are in the order of the source file.
\<close>

definition conf_py :: "(string \<Rightarrow> string \<Rightarrow> string) \<Rightarrow> interp \<Rightarrow> interp" where
  "conf_py abspath s0 =
     (let s = assign ''project'' (Str ''CANDOR Research Documentation'') s0;
          s = assign ''copyright'' (Str ''2025, Dalton Burkhart'') s;
          s = assign ''author'' (Str ''Dalton Burkhart'') s;
          s = import_module ''os'' s;
          s = import_module ''sys'' s;
          s = sys_path_insert 0 (abspath (cwd s) ''../cpp/src'') s;
          s = assign ''extensions'' (PyList [Str ''breathe'', Str ''sphinx_rtd_theme'']) s;
          s = assign ''templates_path'' (PyList [Str ''_templates'']) s;
          s = assign ''exclude_patterns''
                (PyList [Str ''_build'', Str ''Thumbs.db'', Str ''.DS_Store'']) s;
          s = assign ''breathe_projects''
                (PyDict [(''CANDOR Research Documentation'', Str ''./output/xml'')]) s;
          s = assign ''breathe_default_project'' (Str ''CANDOR Research Documentation'') s;
          s = assign ''breathe_default_members'' (PyList [Str ''members'']) s;
          s = assign ''highlight_language'' (Str ''c++'') s;
          s = assign ''master_doc'' (Str ''index'') s;
          s = assign ''html_theme'' (Str ''sphinx_rtd_theme'') s;
          s = assign ''html_static_path'' (PyList [Str ''_static'']) s
      in s)"

subsection \<open>Reading the event log\<close>

text \<open>The events that one execution of the file appends to the log.\<close>

definition conf_events :: "(string \<Rightarrow> string \<Rightarrow> string) \<Rightarrow> interp \<Rightarrow> event list" where
  "conf_events abspath s = drop (length (trace s)) (trace (conf_py abspath s))"

text \<open>The values assigned to a name, in order; the insertions into \<^verbatim>\<open>sys.path\<close>, in order.\<close>

fun assignments_to :: "string \<Rightarrow> event list \<Rightarrow> pyval list" where
  "assignments_to name [] = []"
| "assignments_to name (Assigned n v # es) =
     (if n = name then v # assignments_to name es else assignments_to name es)"
| "assignments_to name (Imported m # es) = assignments_to name es"
| "assignments_to name (PathInserted i p # es) = assignments_to name es"

fun path_insertions :: "event list \<Rightarrow> (int \<times> string) list" where
  "path_insertions [] = []"
| "path_insertions (Assigned n v # es) = path_insertions es"
| "path_insertions (Imported m # es) = path_insertions es"
| "path_insertions (PathInserted i p # es) = (i, p) # path_insertions es"




text \<open>
  The configuration variables of the file, in source order, and all the names the file
  binds: the configuration variables and the two imported modules.
\<close>

definition conf_variables :: "string list" where
  "conf_variables =
     [''project'', ''copyright'', ''author'', ''extensions'', ''templates_path'',
      ''exclude_patterns'', ''breathe_projects'', ''breathe_default_project'',
      ''breathe_default_members'', ''highlight_language'', ''master_doc'', ''html_theme'',
      ''html_static_path'']"


subsection \<open>\<^verbatim>\<open>os.path.abspath\<close> on POSIX\<close>

text \<open>
  The POSIX implementation of \<^verbatim>\<open>os.path.abspath\<close> (CPython's \<^verbatim>\<open>posixpath\<close>:
  \<^verbatim>\<open>isabs\<close>, \<^verbatim>\<open>join\<close>, \<^verbatim>\<open>normpath\<close>, \<^verbatim>\<open>abspath\<close>), on \<^verbatim>\<open>str\<close> paths. The
  theorems about \<open>conf_py\<close> hold for every \<open>abspath\<close>; this one instantiates the
  parameter where a concrete execution is evaluated.
\<close>

definition isabs :: "string \<Rightarrow> bool" where
  "isabs s = (take 1 s = ''/'')"

definition join :: "string \<Rightarrow> string \<Rightarrow> string" where
  "join a b =
     (if take 1 b = ''/'' then b
      else if a = [] \<or> (a \<noteq> [] \<and> last a = CHR ''/'') then a @ b
      else a @ ''/'' @ b)"

text \<open>\<^verbatim>\<open>path.split('/')\<close> and \<^verbatim>\<open>'/'.join(comps)\<close>.\<close>

fun split_sep :: "string \<Rightarrow> string list" where
  "split_sep [] = [[]]"
| "split_sep (c # cs) =
     (if c = CHR ''/'' then [] # split_sep cs
      else (case split_sep cs of [] \<Rightarrow> [[c]] | w # ws \<Rightarrow> (c # w) # ws))"

fun sep_join :: "string list \<Rightarrow> string" where
  "sep_join [] = []"
| "sep_join [w] = w"
| "sep_join (w # v # ws) = w @ ''/'' @ sep_join (v # ws)"

text \<open>The loop of \<^verbatim>\<open>normpath\<close> over the components, \<open>new_comps\<close> being its accumulator.\<close>

fun norm_comps :: "nat \<Rightarrow> string list \<Rightarrow> string list \<Rightarrow> string list" where
  "norm_comps initial_slashes new_comps [] = new_comps"
| "norm_comps initial_slashes new_comps (part # comps) =
     (if part = [] \<or> part = ''.'' then norm_comps initial_slashes new_comps comps
      else if part \<noteq> ''..'' \<or> (initial_slashes = 0 \<and> new_comps = [])
              \<or> (new_comps \<noteq> [] \<and> last new_comps = ''..'')
        then norm_comps initial_slashes (new_comps @ [part]) comps
      else if new_comps \<noteq> [] then norm_comps initial_slashes (butlast new_comps) comps
      else norm_comps initial_slashes new_comps comps)"

definition normpath :: "string \<Rightarrow> string" where
  "normpath path =
     (if path = [] then ''.''
      else
        let initial_slashes =
              (if take 1 path = ''/''
               then (if take 2 path = ''//'' \<and> take 3 path \<noteq> ''///'' then 2 else 1)
               else (0::nat));
            comps = norm_comps initial_slashes [] (split_sep path);
            path' = replicate initial_slashes CHR ''/'' @ sep_join comps
        in if path' = [] then ''.'' else path')"

definition posix_abspath :: "string \<Rightarrow> string \<Rightarrow> string" where
  "posix_abspath d path = normpath (if isabs path then path else join d path)"

subsection \<open>Two starting states\<close>

text \<open>
  What initialising \<^verbatim>\<open>os\<close> imports in CPython 3.11 on POSIX; \<^verbatim>\<open>sys\<close> is built
  into the interpreter and imports nothing.
\<close>

definition stdlib_imports :: "string \<Rightarrow> string list" where
  "stdlib_imports m =
     (if m = ''os''
      then [''abc'', ''sys'', ''_stat'', ''stat'', ''_collections_abc'', ''posix'',
            ''genericpath'', ''posixpath'', ''os.path'']
      else [])"

text \<open>
  A documentation build about to read the file: the builder has changed into the
  directory of \<^verbatim>\<open>conf.py\<close>, has itself imported \<^verbatim>\<open>os\<close> and \<^verbatim>\<open>sys\<close>, and executes
  the file in a namespace that holds \<^verbatim>\<open>__file__\<close>.
\<close>

definition build_start :: interp where
  "build_start =
     \<lparr>cwd = ''/srv/candor/docs'',
      sys_path = [''/usr/lib/python3.11'', ''/usr/lib/python3.11/site-packages''],
      sys_modules = [''sys'', ''builtins'', ''os'', ''sphinx''],
      module_imports = stdlib_imports,
      globals = [''__file__'' \<mapsto> Str ''/srv/candor/docs/conf.py''],
      trace = []\<rparr>"

text \<open>
  The same directory, but everything else different: another search path, an interpreter
  started without its site initialisation, which has not loaded \<^verbatim>\<open>os\<close>, stale bindings
  of two of the file's names, and a log that is not empty.
\<close>

definition script_start :: interp where
  "script_start =
     \<lparr>cwd = ''/srv/candor/docs'',
      sys_path = [''/srv/candor/docs'', ''/opt/python/lib''],
      sys_modules = [''sys'', ''builtins'', ''posix'', ''_abc'', ''abc'', ''__main__''],
      module_imports = stdlib_imports,
      globals = [''__name__'' \<mapsto> Str ''__main__'', ''project'' \<mapsto> Str ''stale'',
                 ''html_theme'' \<mapsto> Str ''alabaster''],
      trace = [Assigned ''project'' (Str ''stale'')]\<rparr>"

section \<open>What one execution does\<close>

text \<open>
  The four lemmas of this section describe the state after the file has run, component by
  component, for every starting state and every \<open>abspath\<close>. The properties of the
  following sections are read off them.
\<close>

lemmas stmt_defs = assign_def import_module_def sys_path_insert_def Let_def

lemma list_insert_0: "list_insert 0 x xs = x # xs"
  by (simp add: list_insert_def)

lemma conf_py_sys_path:
  "sys_path (conf_py abspath s) = abspath (cwd s) ''../cpp/src'' # sys_path s"
  by (simp add: conf_py_def stmt_defs list_insert_0)














lemma conf_py_trace:
  "trace (conf_py abspath s) = trace s @
     [Assigned ''project'' (Str ''CANDOR Research Documentation''),
      Assigned ''copyright'' (Str ''2025, Dalton Burkhart''),
      Assigned ''author'' (Str ''Dalton Burkhart''),
      Imported ''os'',
      Imported ''sys'',
      PathInserted 0 (abspath (cwd s) ''../cpp/src''),
      Assigned ''extensions'' (PyList [Str ''breathe'', Str ''sphinx_rtd_theme'']),
      Assigned ''templates_path'' (PyList [Str ''_templates'']),
      Assigned ''exclude_patterns''
        (PyList [Str ''_build'', Str ''Thumbs.db'', Str ''.DS_Store'']),
      Assigned ''breathe_projects''
        (PyDict [(''CANDOR Research Documentation'', Str ''./output/xml'')]),
      Assigned ''breathe_default_project'' (Str ''CANDOR Research Documentation''),
      Assigned ''breathe_default_members'' (PyList [Str ''members'']),
      Assigned ''highlight_language'' (Str ''c++''),
      Assigned ''master_doc'' (Str ''index''),
      Assigned ''html_theme'' (Str ''sphinx_rtd_theme''),
      Assigned ''html_static_path'' (PyList [Str ''_static''])]"
  by (simp add: conf_py_def stmt_defs)

lemma conf_events_eq:
  "conf_events abspath s =
     [Assigned ''project'' (Str ''CANDOR Research Documentation''),
      Assigned ''copyright'' (Str ''2025, Dalton Burkhart''),
      Assigned ''author'' (Str ''Dalton Burkhart''),
      Imported ''os'',
      Imported ''sys'',
      PathInserted 0 (abspath (cwd s) ''../cpp/src''),
      Assigned ''extensions'' (PyList [Str ''breathe'', Str ''sphinx_rtd_theme'']),
      Assigned ''templates_path'' (PyList [Str ''_templates'']),
      Assigned ''exclude_patterns''
        (PyList [Str ''_build'', Str ''Thumbs.db'', Str ''.DS_Store'']),
      Assigned ''breathe_projects''
        (PyDict [(''CANDOR Research Documentation'', Str ''./output/xml'')]),
      Assigned ''breathe_default_project'' (Str ''CANDOR Research Documentation''),
      Assigned ''breathe_default_members'' (PyList [Str ''members'']),
      Assigned ''highlight_language'' (Str ''c++''),
      Assigned ''master_doc'' (Str ''index''),
      Assigned ''html_theme'' (Str ''sphinx_rtd_theme''),
      Assigned ''html_static_path'' (PyList [Str ''_static''])]"
  by (simp add: conf_events_def conf_py_trace)

lemma conf_py_globals:
  "globals (conf_py abspath s) =
     (globals s)
       (''project'' \<mapsto> Str ''CANDOR Research Documentation'',
        ''copyright'' \<mapsto> Str ''2025, Dalton Burkhart'',
        ''author'' \<mapsto> Str ''Dalton Burkhart'',
        ''os'' \<mapsto> Module ''os'',
        ''sys'' \<mapsto> Module ''sys'',
        ''extensions'' \<mapsto> PyList [Str ''breathe'', Str ''sphinx_rtd_theme''],
        ''templates_path'' \<mapsto> PyList [Str ''_templates''],
        ''exclude_patterns'' \<mapsto> PyList [Str ''_build'', Str ''Thumbs.db'', Str ''.DS_Store''],
        ''breathe_projects'' \<mapsto>
          PyDict [(''CANDOR Research Documentation'', Str ''./output/xml'')],
        ''breathe_default_project'' \<mapsto> Str ''CANDOR Research Documentation'',
        ''breathe_default_members'' \<mapsto> PyList [Str ''members''],
        ''highlight_language'' \<mapsto> Str ''c++'',
        ''master_doc'' \<mapsto> Str ''index'',
        ''html_theme'' \<mapsto> Str ''sphinx_rtd_theme'',
        ''html_static_path'' \<mapsto> PyList [Str ''_static''])"
  by (simp add: conf_py_def stmt_defs)

text \<open>The POSIX \<open>abspath\<close> of the file's relative path, from the example directory.\<close>

lemma posix_abspath_example:
  "posix_abspath ''/srv/candor/docs'' ''../cpp/src'' = ''/srv/candor/cpp/src''"
  by (simp add: posix_abspath_def normpath_def isabs_def join_def)

section \<open>The search path\<close>

text \<open>
  C1. Executing the file performs exactly one insertion into \<^verbatim>\<open>sys.path\<close>: the
  absolute form of \<^verbatim>\<open>'../cpp/src'\<close>, at index 0. Afterwards \<^verbatim>\<open>sys.path\<close> is that
  entry followed by the old list, so its first element is
  \<^verbatim>\<open>os.path.abspath('../cpp/src')\<close>.
\<close>

theorem sys_path_insertion_once:
  "path_insertions (conf_events abspath s) = [(0, abspath (cwd s) ''../cpp/src'')]
   \<and> sys_path (conf_py abspath s) = abspath (cwd s) ''../cpp/src'' # sys_path s
   \<and> sys_path (conf_py abspath s) ! 0 = abspath (cwd s) ''../cpp/src''"
  by (simp add: conf_events_eq conf_py_sys_path)

text \<open>
  On POSIX, a build started in \<^verbatim>\<open>/srv/candor/docs\<close> puts \<^verbatim>\<open>/srv/candor/cpp/src\<close>
  first.
\<close>

theorem sys_path_insertion_once_witness:
  "path_insertions (conf_events posix_abspath build_start) = [(0, ''/srv/candor/cpp/src'')]
   \<and> sys_path (conf_py posix_abspath build_start) =
       [''/srv/candor/cpp/src'', ''/usr/lib/python3.11'', ''/usr/lib/python3.11/site-packages'']
   \<and> sys_path (conf_py posix_abspath build_start) ! 0 = ''/srv/candor/cpp/src''"
  using sys_path_insertion_once [of posix_abspath build_start]
  by (simp add: build_start_def posix_abspath_example)




section \<open>The bindings\<close>

text \<open>
  C2. After the file has run, \<^verbatim>\<open>extensions\<close> is the list of exactly two strings,
  \<^verbatim>\<open>'breathe'\<close> and then \<^verbatim>\<open>'sphinx_rtd_theme'\<close>.
\<close>

theorem extensions_binding:
  "globals (conf_py abspath s) ''extensions'' =
     Some (PyList [Str ''breathe'', Str ''sphinx_rtd_theme''])"
  by (simp add: conf_py_globals)

text \<open>
  C3. The string bound to \<^verbatim>\<open>breathe_default_project\<close> is a key of the dictionary bound
  to \<^verbatim>\<open>breathe_projects\<close>, and the dictionary maps it to \<^verbatim>\<open>'./output/xml'\<close>.
\<close>

theorem breathe_default_project_in_projects:
  "(case (globals (conf_py abspath s) ''breathe_default_project'',
          globals (conf_py abspath s) ''breathe_projects'') of
      (Some (Str k), Some (PyDict d)) \<Rightarrow>
        k \<in> fst ` set d \<and> map_of d k = Some (Str ''./output/xml'')
    | _ \<Rightarrow> False)"
  by (simp add: conf_py_globals)

text \<open>
  C4, as amended. The string bound to \<^verbatim>\<open>project\<close> is
  \<^verbatim>\<open>'CANDOR Research Documentation'\<close>: the project name starts with ``CANDOR'' and is
  longer than it.
\<close>

theorem project_binding:
  "globals (conf_py abspath s) ''project'' = Some (Str ''CANDOR Research Documentation'')
   \<and> take 6 ''CANDOR Research Documentation'' = ''CANDOR''"
  by (simp add: conf_py_globals)

text \<open>C4, as stated, fails: the string bound to \<^verbatim>\<open>project\<close> is not \<^verbatim>\<open>'CANDOR'\<close>.\<close>

theorem project_binding_not_CANDOR:
  "globals (conf_py posix_abspath build_start) ''project'' \<noteq> Some (Str ''CANDOR'')"
  by (simp add: conf_py_globals)

text \<open>
  C5. \<^verbatim>\<open>templates_path\<close> is \<^verbatim>\<open>['_templates']\<close>, \<^verbatim>\<open>exclude_patterns\<close> is
  \<^verbatim>\<open>['_build', 'Thumbs.db', '.DS_Store']\<close> and \<^verbatim>\<open>html_static_path\<close> is
  \<^verbatim>\<open>['_static']\<close>, each a list of strings.
\<close>

theorem path_list_bindings:
  "globals (conf_py abspath s) ''templates_path'' = Some (PyList [Str ''_templates''])
   \<and> globals (conf_py abspath s) ''exclude_patterns'' =
       Some (PyList [Str ''_build'', Str ''Thumbs.db'', Str ''.DS_Store''])
   \<and> globals (conf_py abspath s) ''html_static_path'' = Some (PyList [Str ''_static''])"
  by (simp add: conf_py_globals)

text \<open>C6. After the file has run, \<^verbatim>\<open>html_theme\<close> is the string \<^verbatim>\<open>'sphinx_rtd_theme'\<close>.\<close>

theorem html_theme_binding:
  "globals (conf_py abspath s) ''html_theme'' = Some (Str ''sphinx_rtd_theme'')"
  by (simp add: conf_py_globals)

text \<open>
  C7. Each of \<^verbatim>\<open>project\<close>, \<^verbatim>\<open>copyright\<close> and \<^verbatim>\<open>author\<close> is assigned exactly once
  while the file runs, the value assigned is a string constant, and it is the value the
  name has at the end.
\<close>

theorem identity_assigned_once:
  "assignments_to ''project'' (conf_events abspath s) = [Str ''CANDOR Research Documentation'']
   \<and> globals (conf_py abspath s) ''project'' = Some (Str ''CANDOR Research Documentation'')
   \<and> assignments_to ''copyright'' (conf_events abspath s) = [Str ''2025, Dalton Burkhart'']
   \<and> globals (conf_py abspath s) ''copyright'' = Some (Str ''2025, Dalton Burkhart'')
   \<and> assignments_to ''author'' (conf_events abspath s) = [Str ''Dalton Burkhart'']
   \<and> globals (conf_py abspath s) ''author'' = Some (Str ''Dalton Burkhart'')"
  by (simp add: conf_events_eq conf_py_globals)

text \<open>
  C9. The value of \<^verbatim>\<open>html_theme\<close> is an element of the list \<^verbatim>\<open>extensions\<close>: the
  theme the build renders with is among the extensions it loads.
\<close>

theorem html_theme_in_extensions:
  "(case (globals (conf_py abspath s) ''html_theme'',
          globals (conf_py abspath s) ''extensions'') of
      (Some theme, Some (PyList exts)) \<Rightarrow> theme \<in> set exts
    | _ \<Rightarrow> False)"
  by (simp add: conf_py_globals)

section \<open>Determinism\<close>

text \<open>
  C10. Two executions that start in the same working directory end with the same value
  for every configuration variable and insert the same entry into \<^verbatim>\<open>sys.path\<close>,
  whatever else differs between the two starting states (search path, module table,
  namespace, log).
\<close>

theorem conf_py_deterministic:
  "cwd s1 = cwd s2 \<Longrightarrow>
   list_all (\<lambda>n. globals (conf_py abspath s1) n = globals (conf_py abspath s2) n
                \<and> globals (conf_py abspath s1) n \<noteq> None) conf_variables
   \<and> path_insertions (conf_events abspath s1) = path_insertions (conf_events abspath s2)
   \<and> sys_path (conf_py abspath s1) ! 0 = sys_path (conf_py abspath s2) ! 0"
  by (simp add: conf_events_eq conf_py_globals conf_py_sys_path conf_variables_def)

theorem conf_py_deterministic_witness:
  "cwd build_start = cwd script_start
   \<and> sys_path build_start \<noteq> sys_path script_start
   \<and> sys_modules build_start \<noteq> sys_modules script_start
   \<and> globals build_start ''project'' \<noteq> globals script_start ''project''
   \<and> list_all (\<lambda>n. globals (conf_py posix_abspath build_start) n =
                     globals (conf_py posix_abspath script_start) n
                \<and> globals (conf_py posix_abspath build_start) n \<noteq> None) conf_variables
   \<and> path_insertions (conf_events posix_abspath build_start) =
       path_insertions (conf_events posix_abspath script_start)
   \<and> sys_path (conf_py posix_abspath build_start) ! 0 =
       sys_path (conf_py posix_abspath script_start) ! 0"
proof -
  have same_dir: "cwd build_start = cwd script_start"
    by (simp add: build_start_def script_start_def)
  show ?thesis
    using same_dir conf_py_deterministic [OF same_dir, of posix_abspath]
    by (simp add: build_start_def script_start_def)
qed

end
